theory Spec2Isabelle
  imports Complex_Main "HOL-Library.Sublist"
begin

section \<open>Data model of the details screen\<close>

text \<open>
  The development embeds the dish pipeline of \<^verbatim>\<open>app/details/[id].tsx\<close>: the
  resolution effect (local dataset first, remote catalogue second), the favourites and
  history lists kept in AsyncStorage, the slot extraction loop and the per-ingredient
  enrichment. Identifiers, names and thumbnails are strings; \<^verbatim>\<open>Date.now()\<close> is an
  integer number of milliseconds; the nutrition figures are JavaScript numbers that the
  screen only carries around, modelled as reals.
\<close>

text \<open>
  The three fields shared by a favourites entry, a history entry and the \<^verbatim>\<open>dish\<close>
  object. A favourites entry is exactly this record.
\<close>

record DishSummary =
  idMeal :: string
  strMeal :: string
  strMealThumb :: string

text \<open>A history entry: the summary plus \<^verbatim>\<open>viewedAt: Date.now()\<close>.\<close>

record HistoryEntry = DishSummary +
  viewedAt :: int

text \<open>
  The \<^verbatim>\<open>dish\<close> state (\<^verbatim>\<open>any\<close> in the source). The positional properties
  \<^verbatim>\<open>strIngredient1..20\<close> and \<^verbatim>\<open>strMeasure1..20\<close> are read through a computed
  key; they are modelled as functions of the slot number, \<open>None\<close> standing for a
  property that is absent, \<^verbatim>\<open>undefined\<close> or \<^verbatim>\<open>null\<close>.
\<close>

record Dish = DishSummary +
  strInstructions :: string
  strIngredient :: "nat \<Rightarrow> string option"
  strMeasure :: "nat \<Rightarrow> string option"

text \<open>
  \<^verbatim>\<open>Meal\<close> is imported from \<^verbatim>\<open>services/localData\<close>; its fields are the ones the
  screen reads (\<^verbatim>\<open>id\<close>, \<^verbatim>\<open>name\<close>, \<^verbatim>\<open>thumbnail\<close>, \<^verbatim>\<open>instructions\<close>,
  \<^verbatim>\<open>category\<close>, \<^verbatim>\<open>ingredients\<close>, \<^verbatim>\<open>nutrition\<close>), prefixed because
  \<open>id\<close> is a HOL constant and \<open>name\<close>, \<open>nutrition\<close> are fields of
  \<^verbatim>\<open>IngredientInfo\<close> as well.
\<close>

record MealNutrition =
  meal_calories :: real
  meal_protein :: real
  meal_fat :: real
  meal_carbs :: real

record Meal =
  meal_id :: string
  meal_name :: string
  meal_thumbnail :: string
  meal_instructions :: string
  meal_category :: string
  meal_ingredients :: "string list"
  meal_nutrition :: MealNutrition

record Nutrition =
  calories :: real
  protein :: real
  fat :: real
  sugars :: real
  sodium :: real

text \<open>
  \<^verbatim>\<open>IngredientInfo\<close>. The measure is \<^verbatim>\<open>dish[`strMeasure${i}`]?.trim()\<close>, which is
  \<^verbatim>\<open>undefined\<close> when the property is missing, hence an option.
\<close>

record IngredientInfo =
  name :: string
  measure :: "string option"
  nutrition :: Nutrition
  allergens :: "string list"

section \<open>The history list\<close>

definition MAX_HISTORY :: nat where
  "MAX_HISTORY = 50"

text \<open>
  Lines 76-89 and 110-122: the list written back to \<^verbatim>\<open>HISTORY\<close> when the dish
  \<open>d\<close> is viewed at clock reading \<open>now\<close>, from the list \<open>histList\<close> read before.
  \<^verbatim>\<open>
  const newEntry = { idMeal, strMeal, strMealThumb, viewedAt: Date.now() };
  histList = [newEntry, ...histList.filter((h) => h.idMeal !== m.id)];
  if (histList.length > MAX_HISTORY) histList = histList.slice(0, MAX_HISTORY);
  \<close>
\<close>

definition newEntry :: "int \<Rightarrow> 'a DishSummary_scheme \<Rightarrow> HistoryEntry" where
  "newEntry now d =
     \<lparr>idMeal = idMeal d, strMeal = strMeal d, strMealThumb = strMealThumb d, viewedAt = now\<rparr>"

definition recordView :: "int \<Rightarrow> 'a DishSummary_scheme \<Rightarrow> HistoryEntry list \<Rightarrow> HistoryEntry list" where
  "recordView now d histList =
     (let histList1 = newEntry now d # filter (\<lambda>h. idMeal h \<noteq> idMeal d) histList
      in if length histList1 > MAX_HISTORY then take MAX_HISTORY histList1 else histList1)"

text \<open>
  A sequence of views, oldest first, each with the clock reading at which it happens,
  applied one after the other to a history list.
\<close>

fun recordViews :: "(int \<times> DishSummary) list \<Rightarrow> HistoryEntry list \<Rightarrow> HistoryEntry list" where
  "recordViews [] histList = histList"
| "recordViews ((now, d) # vs) histList = recordViews vs (recordView now d histList)"

text \<open>The three parts of the history invariant of the data model.\<close>

definition one_entry_per_id :: "HistoryEntry list \<Rightarrow> bool" where
  "one_entry_per_id histList = distinct (map idMeal histList)"

fun strictly_recent_first :: "HistoryEntry list \<Rightarrow> bool" where
  "strictly_recent_first [] = True"
| "strictly_recent_first [h] = True"
| "strictly_recent_first (h # g # hs) = (viewedAt g < viewedAt h \<and> strictly_recent_first (g # hs))"

definition later_than_all :: "int \<Rightarrow> HistoryEntry list \<Rightarrow> bool" where
  "later_than_all now histList = list_all (\<lambda>h. viewedAt h < now) histList"

text \<open>The history entries that a sequence of views creates, oldest first.\<close>

definition entries :: "(int \<times> DishSummary) list \<Rightarrow> HistoryEntry list" where
  "entries vs = map (\<lambda>(now, d). newEntry now d) vs"

text \<open>
  The history invariant: one entry per identifier, strictly most-recent-first by
  \<^verbatim>\<open>viewedAt\<close>, at most \<^verbatim>\<open>MAX_HISTORY\<close> entries.
\<close>

definition history_invariant :: "HistoryEntry list \<Rightarrow> bool" where
  "history_invariant histList =
     (one_entry_per_id histList \<and> strictly_recent_first histList \<and> length histList \<le> MAX_HISTORY)"

section \<open>AsyncStorage, the screen state and the collaborators\<close>

datatype key = FAVORITES_KEY | HISTORY_KEY

text \<open>
  The two AsyncStorage slots. A slot holds a JSON string or nothing; the model keeps the
  list that \<^verbatim>\<open>JSON.parse\<close> yields from it (\<^verbatim>\<open>JSON.stringify\<close> followed by
  \<^verbatim>\<open>JSON.parse\<close> is the identity on these flat records), \<open>None\<close> for a key that was
  never written. Storage calls are taken to succeed.
\<close>

record AsyncStorage =
  FAVORITES :: "DishSummary list option"
  HISTORY :: "HistoryEntry list option"

datatype error = NotFoundError | NetworkError | UnknownIngredientError | TypeError

text \<open>
  Calls that leave the component. The log of the state below holds, in the order they
  are made, the calls of the resolution effect and of the toggle. The calls of the
  enrichment tasks are issued in an order that depends on how the tasks interleave;
  they are logged in the pool of tasks defined further down, not in the state.
\<close>

datatype call =
    GetMealDetails string
  | GetNutritionByIngredient string
  | GetAllergenFlags string
  | GetItem key
  | SetItem key
  | ConsoleError error

text \<open>
  The seven \<^verbatim>\<open>useState\<close> cells of \<^verbatim>\<open>DetailsScreen\<close>, the persisted storage and the
  log of outside calls.
\<close>

record World =
  dish :: "Dish option"
  loadingDish :: bool
  ingredients :: "IngredientInfo list"
  loadingNutrition :: bool
  isFavorite :: bool
  localMeal :: "Meal option"
  loadingLocal :: bool
  storage :: AsyncStorage
  calls :: "call list"

text \<open>The state at mount: the initial values of the \<^verbatim>\<open>useState\<close> calls (lines 46-52).\<close>

definition initial_world :: "AsyncStorage \<Rightarrow> World" where
  "initial_world st =
     \<lparr>dish = None, loadingDish = True, ingredients = [], loadingNutrition = True,
      isFavorite = False, localMeal = None, loadingLocal = True, storage = st, calls = []\<rparr>"

text \<open>
  The imported collaborators (\<^verbatim>\<open>services/localData\<close>, \<^verbatim>\<open>services/api\<close>) and the
  clock are parameters. A remote call either throws or returns. The two per-ingredient
  calls take the position of the task that makes them besides the ingredient name: the
  service may answer two calls for the same name differently.
\<close>

record Env =
  getMealById :: "string \<Rightarrow> Meal option"
  getMealDetails :: "string \<Rightarrow> error + Dish"
  getNutritionByIngredient :: "nat \<Rightarrow> string \<Rightarrow> error + Nutrition"
  getAllergenFlags :: "nat \<Rightarrow> string \<Rightarrow> error + string list"
  Date_now :: int

text \<open>\<^verbatim>\<open>json ? JSON.parse(json) : []\<close>\<close>

definition parse_or_empty :: "'a list option \<Rightarrow> 'a list" where
  "parse_or_empty json = (case json of None \<Rightarrow> [] | Some list \<Rightarrow> list)"

text \<open>\<^verbatim>\<open>favList.some((f) => f.idMeal === id)\<close>\<close>

definition isFavoriteId :: "string \<Rightarrow> DishSummary list \<Rightarrow> bool" where
  "isFavoriteId i favList = list_ex (\<lambda>f. idMeal f = i) favList"

text \<open>Lines 69-71 and 103-105: read the favourites and set the flag.\<close>

definition favorite_check :: "'a DishSummary_scheme \<Rightarrow> World \<Rightarrow> World" where
  "favorite_check d w =
     (let favList = parse_or_empty (FAVORITES (storage w))
      in w\<lparr>isFavorite := isFavoriteId (idMeal d) favList, calls := calls w @ [GetItem FAVORITES_KEY]\<rparr>)"

text \<open>Lines 74-90 and 108-123: read the history, record the view, write it back.\<close>

definition history_record :: "int \<Rightarrow> 'a DishSummary_scheme \<Rightarrow> World \<Rightarrow> World" where
  "history_record now d w =
     (let histList = parse_or_empty (HISTORY (storage w))
      in w\<lparr>storage := (storage w)\<lparr>HISTORY := Some (recordView now d histList)\<rparr>,
            calls := calls w @ [GetItem HISTORY_KEY, SetItem HISTORY_KEY]\<rparr>)"

text \<open>Lines 62-67: the minimal \<^verbatim>\<open>dish\<close> object built from a local meal.\<close>

definition local_dish :: "Meal \<Rightarrow> Dish" where
  "local_dish m =
     \<lparr>idMeal = meal_id m, strMeal = meal_name m, strMealThumb = meal_thumbnail m,
      strInstructions = meal_instructions m,
      strIngredient = (\<lambda>i. None), strMeasure = (\<lambda>i. None)\<rparr>"

section \<open>The resolution effect\<close>

text \<open>
  Lines 55-130, run for the route parameter \<open>ident\<close>. The local branch returns before
  the \<^verbatim>\<open>try\<close>; in the remote branch a throwing \<^verbatim>\<open>getMealDetails\<close> leaves the
  \<^verbatim>\<open>try\<close> block at its first statement, the \<^verbatim>\<open>catch\<close> logs the error, and the
  \<^verbatim>\<open>finally\<close> clears \<^verbatim>\<open>loadingDish\<close> on both ways out.
\<close>

definition resolution_effect :: "Env \<Rightarrow> string \<Rightarrow> World \<Rightarrow> World" where
  "resolution_effect env ident w =
     (case getMealById env ident of
        Some m \<Rightarrow>
          (let w1 = w\<lparr>localMeal := Some m\<rparr>;
               w2 = w1\<lparr>dish := Some (local_dish m)\<rparr>;
               w3 = favorite_check (local_dish m) w2;
               w4 = history_record (Date_now env) (local_dish m) w3
           in w4\<lparr>loadingLocal := False\<rparr>)
      | None \<Rightarrow>
          (let w1 = w\<lparr>calls := calls w @ [GetMealDetails ident]\<rparr>
           in case getMealDetails env ident of
                Inr data \<Rightarrow>
                  (let w2 = w1\<lparr>dish := Some data\<rparr>;
                       w3 = favorite_check data w2;
                       w4 = history_record (Date_now env) data w3
                   in w4\<lparr>loadingDish := False\<rparr>)
              | Inl e \<Rightarrow>
                  (let w2 = w1\<lparr>calls := calls w1 @ [ConsoleError e]\<rparr>
                   in w2\<lparr>loadingDish := False\<rparr>)))"

section \<open>Toggling the favourite\<close>

text \<open>What the promise of an async function resolves to.\<close>

datatype js_value = Undefined | Boolean bool

text \<open>
  Lines 133-147. The function takes no argument and has no \<^verbatim>\<open>return\<close> statement: it
  reads \<^verbatim>\<open>dish\<close> and \<^verbatim>\<open>isFavorite\<close> from the component state, and its promise
  resolves to \<^verbatim>\<open>undefined\<close>. Reading \<^verbatim>\<open>dish.idMeal\<close> while \<^verbatim>\<open>dish\<close> is
  \<^verbatim>\<open>null\<close> throws a TypeError; the filter callback reads it once per list element,
  the object literal of the \<^verbatim>\<open>push\<close> always.
\<close>

definition toggleFavorite :: "World \<Rightarrow> error + (js_value \<times> World)" where
  "toggleFavorite w =
     (let w1 = w\<lparr>calls := calls w @ [GetItem FAVORITES_KEY]\<rparr>;
          list = parse_or_empty (FAVORITES (storage w));
          updated =
            (if isFavorite w then
               (case dish w of
                  Some d \<Rightarrow> Inr (filter (\<lambda>f. idMeal f \<noteq> idMeal d) list)
                | None \<Rightarrow> if list = [] then Inr [] else Inl TypeError)
             else
               (case dish w of
                  Some d \<Rightarrow>
                    Inr (list @ [\<lparr>idMeal = idMeal d, strMeal = strMeal d,
                                   strMealThumb = strMealThumb d\<rparr>])
                | None \<Rightarrow> Inl TypeError))
      in case updated of
           Inl e \<Rightarrow> Inl e
         | Inr list' \<Rightarrow>
             Inr (Undefined,
                  w1\<lparr>storage := (storage w1)\<lparr>FAVORITES := Some list'\<rparr>,
                      calls := calls w1 @ [SetItem FAVORITES_KEY],
                      isFavorite := \<not> isFavorite w\<rparr>))"

section \<open>Slot extraction\<close>

text \<open>
  \<^verbatim>\<open>String.prototype.trim\<close> strips white space and line terminators from both ends.
  A string is a list of 8-bit characters, read as the code points below 256; among
  these, white space and line terminators are TAB, LF, VT, FF, CR, SP and the no-break
  space U+00A0.
\<close>

definition is_white_space :: "char \<Rightarrow> bool" where
  "is_white_space c = (of_char c \<in> {9, 10, 11, 12, 13, 32, 160 :: nat})"

definition trim :: "string \<Rightarrow> string" where
  "trim s = rev (dropWhile is_white_space (rev (dropWhile is_white_space s)))"

text \<open>
  Lines 153-158. \<^verbatim>\<open>dish[key]?.trim()\<close> is \<^verbatim>\<open>undefined\<close> for a missing property;
  \<^verbatim>\<open>if (name)\<close> lets a non-empty string through and nothing else.
  \<^verbatim>\<open>
  for (let i = 1; i <= 20; i++) {
    const name = dish[`strIngredient${i}`]?.trim();
    const measure = dish[`strMeasure${i}`]?.trim();
    if (name) list.push({ name, measure });
  }
  \<close>
\<close>

function extract_loop :: "Dish \<Rightarrow> nat \<Rightarrow> (string \<times> string option) list \<Rightarrow> (string \<times> string option) list" where
  "extract_loop d i list =
     (if i \<le> 20 then
        (let name = map_option trim (strIngredient d i);
             measure = map_option trim (strMeasure d i)
         in extract_loop d (Suc i)
              (case name of
                 None \<Rightarrow> list
               | Some n \<Rightarrow> if n \<noteq> [] then list @ [(n, measure)] else list))
      else list)"
  by pat_completeness auto
termination
  by (relation "Wellfounded.measure (\<lambda>(d, i, list). 21 - i)") auto

declare extract_loop.simps [simp del]

definition extractIngredients :: "Dish \<Rightarrow> (string \<times> string option) list" where
  "extractIngredients d = extract_loop d 1 []"

text \<open>What one slot contributes, for stating the loop's result slot by slot.\<close>

definition slot :: "Dish \<Rightarrow> nat \<Rightarrow> (string \<times> string option) option" where
  "slot d i =
     (case strIngredient d i of
        None \<Rightarrow> None
      | Some s \<Rightarrow> if trim s = [] then None else Some (trim s, map_option trim (strMeasure d i)))"

section \<open>Enrichment\<close>

text \<open>Lines 166-171: the entry the \<^verbatim>\<open>catch\<close> returns.\<close>

definition zero_nutrition :: Nutrition where
  "zero_nutrition = \<lparr>calories = 0, protein = 0, fat = 0, sugars = 0, sodium = 0\<rparr>"

definition degraded :: "string \<Rightarrow> string option \<Rightarrow> IngredientInfo" where
  "degraded n m = \<lparr>name = n, measure = m, nutrition = zero_nutrition, allergens = []\<rparr>"

text \<open>
  Lines 162-164, the \<^verbatim>\<open>try\<close> block of task \<open>k\<close>: the second call is made after the
  first has returned, and a throw of either leaves the block.
\<close>

definition try_block :: "Env \<Rightarrow> nat \<Rightarrow> string \<times> string option \<Rightarrow> error + IngredientInfo" where
  "try_block env k p =
     (case getNutritionByIngredient env k (fst p) of
        Inl e \<Rightarrow> Inl e
      | Inr nut \<Rightarrow>
          (case getAllergenFlags env k (fst p) of
             Inl e \<Rightarrow> Inl e
           | Inr aler \<Rightarrow>
               Inr \<lparr>name = fst p, measure = snd p, nutrition = nut, allergens = aler\<rparr>))"

text \<open>Lines 160-173: the async callback, \<^verbatim>\<open>try\<close> and \<^verbatim>\<open>catch\<close>.\<close>

definition enrich_task :: "Env \<Rightarrow> nat \<Rightarrow> string \<times> string option \<Rightarrow> error + IngredientInfo" where
  "enrich_task env k p =
     (case try_block env k p of
        Inl e \<Rightarrow> Inr (degraded (fst p) (snd p))
      | Inr info \<Rightarrow> Inr info)"

text \<open>
  \<^verbatim>\<open>Promise.all\<close> on settled promises: the values in the order of the input array, or
  a rejection when one of them is rejected.
\<close>

fun Promise_all :: "(error + 'a) list \<Rightarrow> error + 'a list" where
  "Promise_all [] = Inr []"
| "Promise_all (Inl e # ps) = Inl e"
| "Promise_all (Inr v # ps) = (case Promise_all ps of Inl e \<Rightarrow> Inl e | Inr vs \<Rightarrow> Inr (v # vs))"

text \<open>Lines 159-174: \<^verbatim>\<open>Promise.all(list.map(async ...))\<close>, task \<open>k\<close> for element \<open>k\<close>.\<close>

definition enrich :: "Env \<Rightarrow> (string \<times> string option) list \<Rightarrow> error + IngredientInfo list" where
  "enrich env list = Promise_all (map (\<lambda>(k, p). enrich_task env k p) (enumerate 0 list))"

text \<open>
  Lines 150-178, as a function of the state: what the two setters store once
  \<^verbatim>\<open>Promise.all\<close> is fulfilled. The effect returns at once without a dish or with a
  local meal. A rejection of the awaited \<^verbatim>\<open>Promise.all\<close> would leave the async
  function before the two setters. The per-ingredient calls are not added to the log of
  the state (see the pool of tasks for them).
\<close>

definition enrichment_effect :: "Env \<Rightarrow> World \<Rightarrow> error + World" where
  "enrichment_effect env w =
     (case dish w of
        None \<Rightarrow> Inr w
      | Some d \<Rightarrow>
          if localMeal w \<noteq> None then Inr w
          else
            (case enrich env (extractIngredients d) of
               Inl e \<Rightarrow> Inl e
             | Inr enriched \<Rightarrow> Inr (w\<lparr>ingredients := enriched, loadingNutrition := False\<rparr>)))"

text \<open>
  One run of the screen for a route parameter: the resolution effect, then the
  enrichment effect on the state it leaves. The two effects write disjoint cells.
\<close>

definition pipeline :: "Env \<Rightarrow> string \<Rightarrow> World \<Rightarrow> error + World" where
  "pipeline env ident w = enrichment_effect env (resolution_effect env ident w)"

text \<open>What task \<open>k\<close> settles with: the fetched entry, or the degraded one after a throw.\<close>

definition settled_value :: "Env \<Rightarrow> nat \<Rightarrow> string \<times> string option \<Rightarrow> IngredientInfo" where
  "settled_value env k p =
     (case try_block env k p of Inl e \<Rightarrow> degraded (fst p) (snd p) | Inr info \<Rightarrow> info)"

text \<open>The favourites list as the screen reads it from storage.\<close>

definition persisted_favorites :: "World \<Rightarrow> DishSummary list" where
  "persisted_favorites w = parse_or_empty (FAVORITES (storage w))"

section \<open>The enrichment tasks between their await points\<close>

text \<open>
  \<^verbatim>\<open>list.map(async ...)\<close> starts one task per extracted pair; each runs up to its
  first \<^verbatim>\<open>await\<close>, so every nutrition call is made before \<^verbatim>\<open>Promise.all\<close> is
  awaited. A task is then waiting for its nutrition call (line 162), waiting for its
  allergen call (line 163), or settled with the value its callback returned.
\<close>

datatype task_state =
    AwaitingNutrition
  | AwaitingAllergens Nutrition
  | Settled "error + IngredientInfo"


text \<open>
  Task \<open>k\<close> resumes when its outstanding call settles, and runs to its next
  \<^verbatim>\<open>await\<close> or to its end: the new state and the calls it makes on the way. A nutrition
  call that returns is followed by the allergen call; a throw of either call is caught
  and the task returns the degraded entry.
\<close>

fun resume :: "Env \<Rightarrow> nat \<Rightarrow> string \<times> string option \<Rightarrow> task_state \<Rightarrow> task_state \<times> call list" where
  "resume env k p AwaitingNutrition =
     (case getNutritionByIngredient env k (fst p) of
        Inl e \<Rightarrow> (Settled (Inr (degraded (fst p) (snd p))), [])
      | Inr nut \<Rightarrow> (AwaitingAllergens nut, [GetAllergenFlags (fst p)]))"
| "resume env k p (AwaitingAllergens nut) =
     (case getAllergenFlags env k (fst p) of
        Inl e \<Rightarrow> (Settled (Inr (degraded (fst p) (snd p))), [])
      | Inr aler \<Rightarrow>
          (Settled (Inr \<lparr>name = fst p, measure = snd p, nutrition = nut, allergens = aler\<rparr>), []))"
| "resume env k p (Settled r) = (Settled r, [])"

text \<open>
  The tasks and the calls issued so far. At the fan-out every task is waiting for its
  nutrition call, and these calls have been issued in list order.
\<close>

type_synonym pool = "task_state list \<times> call list"


text \<open>The outstanding call of task \<open>k\<close> settles.\<close>

definition settle :: "Env \<Rightarrow> (string \<times> string option) list \<Rightarrow> nat \<Rightarrow> pool \<Rightarrow> pool" where
  "settle env list k s =
     (if k < length (fst s) \<and> k < length list then
        (let (t, issued) = resume env k (list ! k) (fst s ! k)
         in ((fst s)[k := t], snd s @ issued))
      else s)"

text \<open>The outstanding calls settle in the order of a schedule of task numbers.\<close>

fun run :: "Env \<Rightarrow> (string \<times> string option) list \<Rightarrow> nat list \<Rightarrow> pool \<Rightarrow> pool" where
  "run env list [] s = s"
| "run env list (k # ks) s = run env list ks (settle env list k s)"







section \<open>Example inputs\<close>

text \<open>Fifty-one views of distinct dishes at increasing clock readings, and a short history.\<close>

definition example_ids :: "string list" where
  "example_ids =
    [''52701'', ''52702'', ''52703'', ''52704'', ''52705'', ''52706'', ''52707'',
     ''52708'', ''52709'', ''52710'', ''52711'', ''52712'', ''52713'', ''52714'',
     ''52715'', ''52716'', ''52717'', ''52718'', ''52719'', ''52720'', ''52721'',
     ''52722'', ''52723'', ''52724'', ''52725'', ''52726'', ''52727'', ''52728'',
     ''52729'', ''52730'', ''52731'', ''52732'', ''52733'', ''52734'', ''52735'',
     ''52736'', ''52737'', ''52738'', ''52739'', ''52740'', ''52741'', ''52742'',
     ''52743'', ''52744'', ''52745'', ''52746'', ''52747'', ''52748'', ''52749'',
     ''52750'', ''52751'']"

definition example_views :: "(int \<times> DishSummary) list" where
  "example_views =
     map (\<lambda>(k, i). (1700000000000 + int k, \<lparr>idMeal = i, strMeal = ''Dish'', strMealThumb = ''thumb''\<rparr>))
       (enumerate 0 example_ids)"

definition example_history :: "HistoryEntry list" where
  "example_history =
     [\<lparr>idMeal = ''52703'', strMeal = ''Dish'', strMealThumb = ''thumb'', viewedAt = 1600000000000\<rparr>,
      \<lparr>idMeal = ''60001'', strMeal = ''Soup'', strMealThumb = ''thumb'', viewedAt = 1500000000000\<rparr>]"

text \<open>
  A remote dish with names in slots 1, 5 and 20 (the last two equal), a blank name in
  slot 2, a property beyond slot 20, and no measure in slot 20.
\<close>

definition example_dish :: Dish where
  "example_dish =
     \<lparr>idMeal = ''52772'', strMeal = ''Teriyaki Chicken'', strMealThumb = ''thumb'',
      strInstructions = ''Mix and cook.'',
      strIngredient = (\<lambda>i. if i = 1 then Some '' soy sauce ''
                            else if i = 2 then Some ''   ''
                            else if i = 5 then Some ''salt''
                            else if i = 20 then Some ''salt''
                            else if i = 21 then Some ''pepper''
                            else None),
      strMeasure = (\<lambda>i. if i = 1 then Some '' 3/4 cup''
                         else if i = 5 then Some ''1 tsp ''
                         else None)\<rparr>"

text \<open>
  A local meal, and collaborators for it: the remote catalogue also has a record under the
  local identifier; the nutrition call of the second task fails; \<^verbatim>\<open>Date.now()\<close> reads
  1700000000100.
\<close>

definition example_meal :: Meal where
  "example_meal =
     \<lparr>meal_id = ''L1'', meal_name = ''Jollof Rice'', meal_thumbnail = ''jollof.png'',
      meal_instructions = ''Boil the rice.'', meal_category = ''Main'',
      meal_ingredients = [''rice'', ''tomato''],
      meal_nutrition = \<lparr>meal_calories = 350, meal_protein = 8, meal_fat = 9, meal_carbs = 60\<rparr>\<rparr>"

definition example_nutrition :: Nutrition where
  "example_nutrition = \<lparr>calories = 53, protein = 8, fat = 1, sugars = 2, sodium = 5\<rparr>"

definition example_env :: Env where
  "example_env =
     \<lparr>getMealById = (\<lambda>i. if i = ''L1'' then Some example_meal else None),
      getMealDetails = (\<lambda>i. if i = ''52772'' \<or> i = ''L1'' then Inr example_dish
                              else Inl NotFoundError),
      getNutritionByIngredient = (\<lambda>k n. if k = 1 then Inl NetworkError else Inr example_nutrition),
      getAllergenFlags = (\<lambda>k n. if n = ''soy sauce'' then Inr [''soy'', ''wheat''] else Inr []),
      Date_now = 1700000000100\<rparr>"

text \<open>A stored favourites list and the stored example history.\<close>

definition example_storage :: AsyncStorage where
  "example_storage =
     \<lparr>FAVORITES = Some [\<lparr>idMeal = ''60001'', strMeal = ''Soup'', strMealThumb = ''thumb''\<rparr>],
      HISTORY = Some example_history\<rparr>"

text \<open>The screen showing the remote example dish, which is not among the favourites.\<close>

definition example_world :: World where
  "example_world = (initial_world example_storage)\<lparr>dish := Some example_dish, loadingDish := False\<rparr>"

section \<open>Properties of the history list\<close>


text \<open>The conditional \<^verbatim>\<open>slice\<close> is a plain \<open>take\<close>.\<close>

lemma recordView_take:
  "recordView now d h = take MAX_HISTORY (newEntry now d # filter (\<lambda>e. idMeal e \<noteq> idMeal d) h)"
  by (simp add: recordView_def Let_def)

lemma recordView_Cons:
  "recordView now d h = newEntry now d # take 49 (filter (\<lambda>e. idMeal e \<noteq> idMeal d) h)"
  by (simp add: recordView_take MAX_HISTORY_def)

lemma length_recordView: "length (recordView now d h) \<le> 50"
  by (simp add: recordView_Cons)

lemma idMeal_newEntry [simp]: "idMeal (newEntry now d) = idMeal d"
  by (simp add: newEntry_def)

lemma viewedAt_newEntry [simp]: "viewedAt (newEntry now d) = now"
  by (simp add: newEntry_def)

lemma one_entry_per_id_recordView:
  "one_entry_per_id h \<Longrightarrow> one_entry_per_id (recordView now d h)"
proof -
  assume "one_entry_per_id h"
  then have "distinct (map idMeal (filter (\<lambda>e. idMeal e \<noteq> idMeal d) h))"
    by (simp add: one_entry_per_id_def distinct_map_filter)
  then have "distinct (map idMeal (take 49 (filter (\<lambda>e. idMeal e \<noteq> idMeal d) h)))"
    by (simp add: take_map [symmetric])
  moreover have "idMeal d \<notin> set (map idMeal (take 49 (filter (\<lambda>e. idMeal e \<noteq> idMeal d) h)))"
    by (auto dest: in_set_takeD)
  ultimately show ?thesis
    by (simp add: one_entry_per_id_def recordView_Cons)
qed

lemma strictly_recent_first_sorted_wrt:
  "strictly_recent_first h = sorted_wrt (\<lambda>a b. viewedAt b < viewedAt a) h"
  by (induction h rule: strictly_recent_first.induct) force+

lemma strictly_recent_first_recordView:
  assumes "strictly_recent_first h" and "later_than_all now h"
  shows "strictly_recent_first (recordView now d h)"
proof -
  let ?keep = "take 49 (filter (\<lambda>e. idMeal e \<noteq> idMeal d) h)"
  have "sorted_wrt (\<lambda>a b. viewedAt b < viewedAt a) ?keep"
    using assms(1) by (simp add: strictly_recent_first_sorted_wrt sorted_wrt_filter sorted_wrt_take)
  moreover have "\<forall>e \<in> set ?keep. viewedAt e < now"
    using assms(2) by (auto simp: later_than_all_def list_all_iff dest: in_set_takeD)
  ultimately show ?thesis
    by (simp add: strictly_recent_first_sorted_wrt recordView_Cons)
qed


text \<open>A run of views, unfolded at its last view.\<close>

lemma recordViews_snoc:
  "recordViews (vs @ [(now, d)]) h = recordView now d (recordViews vs h)"
  by (induction vs h rule: recordViews.induct) simp_all


lemma take_prefix_step:
  assumes "length T = min 50 n"
  shows "take (min 49 n) (take 49 (T @ F)) = take 49 T"
proof (cases "n \<le> 49")
  case True
  then have "length T = n" using assms by simp
  then show ?thesis using True by simp
next
  case False
  then have "length T = 50" using assms by simp
  then show ?thesis using False by simp
qed

lemma recordViews_prefix:
  "distinct (map (idMeal \<circ> snd) vs) \<Longrightarrow>
   take (min 50 (length vs)) (recordViews vs h) = take 50 (rev (entries vs))"
proof (induction vs rule: rev_induct)
  case Nil
  then show ?case by (simp add: entries_def)
next
  case (snoc v vs)
  obtain now d where v: "v = (now, d)" by (cases v)
  let ?R = "recordViews vs h"
  let ?T = "take 50 (rev (entries vs))"
  let ?F = "filter (\<lambda>e. idMeal e \<noteq> idMeal d) (drop (min 50 (length vs)) ?R)"
  from snoc have IH: "take (min 50 (length vs)) ?R = ?T" by simp
  have fresh: "\<forall>e \<in> set ?T. idMeal e \<noteq> idMeal d"
    using snoc.prems v by (force simp: entries_def image_iff dest!: in_set_takeD)
  have "?R = ?T @ drop (min 50 (length vs)) ?R"
    using IH append_take_drop_id by metis
  then have "filter (\<lambda>e. idMeal e \<noteq> idMeal d) ?R = filter (\<lambda>e. idMeal e \<noteq> idMeal d) ?T @ ?F"
    by (metis filter_append)
  also have "filter (\<lambda>e. idMeal e \<noteq> idMeal d) ?T = ?T"
    using fresh by (simp only: filter_True)
  finally have R': "recordView now d ?R = newEntry now d # take 49 (?T @ ?F)"
    by (simp only: recordView_Cons)
  have len: "length ?T = min 50 (length vs)"
    by (simp add: entries_def)
  have m: "min 50 (length (vs @ [v])) = Suc (min 49 (length vs))"
    by simp
  have "take (min 50 (length (vs @ [v]))) (recordView now d ?R)
      = newEntry now d # take (min 49 (length vs)) (take 49 (?T @ ?F))"
    by (simp only: m R' take_Suc_Cons)
  also have "\<dots> = newEntry now d # take 49 ?T"
    by (simp only: take_prefix_step [OF len])
  also have "\<dots> = newEntry now d # take 49 (rev (entries vs))"
    by simp
  also have "\<dots> = take 50 (rev (entries (vs @ [v])))"
    by (simp add: entries_def v)
  finally show ?case
    by (simp only: v recordViews_snoc)
qed

lemma recordViews_full:
  assumes "distinct (map (idMeal \<circ> snd) vs)" and "50 \<le> length vs"
  shows "recordViews vs h = take 50 (rev (entries vs))"
proof -
  obtain us now d where vs: "vs = us @ [(now, d)]"
    using assms(2) by (cases vs rule: rev_cases) auto
  have "length (recordViews vs h) \<le> 50"
    by (simp add: vs recordViews_snoc length_recordView)
  then have "take (min 50 (length vs)) (recordViews vs h) = recordViews vs h"
    using assms(2) by simp
  then show ?thesis
    using recordViews_prefix [OF assms(1), of h] by simp
qed



text \<open>Whatever the clock reads, a run of views keeps the two properties that do not
  depend on it.\<close>

lemma recordViews_one_entry_per_id:
  "one_entry_per_id h \<Longrightarrow> one_entry_per_id (recordViews vs h)"
  by (induction vs h rule: recordViews.induct) (simp_all add: one_entry_per_id_recordView)

lemma length_recordViews:
  "length h \<le> 50 \<Longrightarrow> length (recordViews vs h) \<le> 50"
  by (induction vs h rule: recordViews.induct) (simp_all add: length_recordView)

text \<open>
  With increasing clock readings, all of them later than the timestamps already stored,
  every view keeps the invariant; each entry is an old one or carries one of the readings.
\<close>

lemma recordViews_invariant:
  assumes "history_invariant h" and "sorted_wrt (<) (map fst vs)"
    and "\<forall>v \<in> set vs. later_than_all (fst v) h"
  shows "history_invariant (recordViews vs h) \<and>
         (\<forall>e \<in> set (recordViews vs h). e \<in> set h \<or> viewedAt e \<in> fst ` set vs)"
  using assms(2,3)
proof (induction vs rule: rev_induct)
  case Nil
  then show ?case using assms(1) by simp
next
  case (snoc v vs)
  obtain now d where v: "v = (now, d)" by (cases v)
  let ?R = "recordViews vs h"
  from snoc.prems have sorted: "sorted_wrt (<) (map fst vs)" and before: "\<forall>x \<in> set vs. fst x < now"
    and later: "later_than_all now h" and later': "\<forall>v \<in> set vs. later_than_all (fst v) h"
    by (auto simp: v sorted_wrt_append)
  from snoc.IH [OF sorted later'] have inv: "history_invariant ?R"
    and src: "\<forall>e \<in> set ?R. e \<in> set h \<or> viewedAt e \<in> fst ` set vs"
    by simp_all
  have "later_than_all now ?R"
    using src before later by (fastforce simp: later_than_all_def list_all_iff)
  then have "history_invariant (recordView now d ?R)"
    using inv
    by (simp add: history_invariant_def one_entry_per_id_recordView
        strictly_recent_first_recordView length_recordView MAX_HISTORY_def)
  moreover have "\<forall>e \<in> set (recordView now d ?R). e \<in> set h \<or> viewedAt e \<in> fst ` set (vs @ [v])"
    using src by (auto simp: recordView_Cons v dest!: in_set_takeD)
  ultimately show ?case
    by (simp only: v recordViews_snoc) 
qed


text \<open>
  Claim C3. Recording a view writes back the new entry, stamped with the clock reading,
  followed by the prior entries of every other identifier, cut to the first 50: the new
  entry is at position 0, no entry behind it has its identifier, and the list never has
  more than 50 entries. After 51 views of pairwise distinct dishes, on any prior history,
  the list holds the last 50 of them, newest first: the first one viewed is gone.
\<close>

theorem recordView_dedup_promote:
  "recordView now d h = take MAX_HISTORY (newEntry now d # filter (\<lambda>e. idMeal e \<noteq> idMeal d) h)
   \<and> hd (recordView now d h) = newEntry now d
   \<and> viewedAt (newEntry now d) = now
   \<and> idMeal d \<notin> idMeal ` set (tl (recordView now d h))
   \<and> length (recordView now d h) \<le> 50
   \<and> (distinct (map (idMeal \<circ> snd) vs) \<and> length vs = 51
        \<longrightarrow> recordViews vs h = rev (entries (tl vs)))"
proof -
  have "idMeal d \<notin> idMeal ` set (tl (recordView now d h))"
    by (auto simp: recordView_Cons dest!: in_set_takeD)
  moreover have "recordViews vs h = rev (entries (tl vs))"
    if dist: "distinct (map (idMeal \<circ> snd) vs)" and len: "length vs = 51"
  proof -
    obtain v us where vs: "vs = v # us" using len by (cases vs) auto
    have "recordViews vs h = take 50 (rev (entries vs))"
      using recordViews_full [OF dist] len by simp
    also have "\<dots> = rev (entries (tl vs))"
      using len by (simp add: vs entries_def)
    finally show ?thesis .
  qed
  ultimately show ?thesis
    by (simp add: recordView_take [symmetric] recordView_Cons)
qed

text \<open>
  The theorem at a history that already holds the dish viewed, and at 51 distinct views.
\<close>

theorem recordView_dedup_promote_witness:
  "recordView 1700000000100 \<lparr>idMeal = ''52703'', strMeal = ''Dish'', strMealThumb = ''thumb''\<rparr>
       example_history
     = [\<lparr>idMeal = ''52703'', strMeal = ''Dish'', strMealThumb = ''thumb'', viewedAt = 1700000000100\<rparr>,
        \<lparr>idMeal = ''60001'', strMeal = ''Soup'', strMealThumb = ''thumb'', viewedAt = 1500000000000\<rparr>]
   \<and> distinct (map (idMeal \<circ> snd) example_views)
   \<and> length example_views = 51
   \<and> length (recordViews example_views example_history) = 50
   \<and> recordViews example_views example_history = rev (entries (tl example_views))"
proof -
  have dist: "distinct (map (idMeal \<circ> snd) example_views)"
    by code_simp
  have len: "length example_views = 51"
    by code_simp
  have one: "recordView 1700000000100 \<lparr>idMeal = ''52703'', strMeal = ''Dish'', strMealThumb = ''thumb''\<rparr>
       example_history
     = [\<lparr>idMeal = ''52703'', strMeal = ''Dish'', strMealThumb = ''thumb'', viewedAt = 1700000000100\<rparr>,
        \<lparr>idMeal = ''60001'', strMeal = ''Soup'', strMealThumb = ''thumb'', viewedAt = 1500000000000\<rparr>]"
    by (simp add: recordView_def newEntry_def example_history_def MAX_HISTORY_def)
  have all: "recordViews example_views example_history = rev (entries (tl example_views))"
    using recordView_dedup_promote [of 0 "\<lparr>idMeal = ''52703'', strMeal = ''Dish'', strMealThumb = ''thumb''\<rparr>"
        example_history example_views] dist len
    by blast
  have "length (rev (entries (tl example_views))) = 50"
    using len by (simp add: entries_def)
  then show ?thesis
    using dist len one all by simp
qed

text \<open>
  Claim C9, as the code has it. The length bound holds after every view, and a view
  keeps a list with one entry per identifier that way, so both hold throughout any run
  of views from the empty history. The screen never compares timestamps: the list is in
  insertion order, and it stays strictly most-recent-first by \<^verbatim>\<open>viewedAt\<close> when the
  clock reading of the view is later than every stored timestamp. So the whole
  invariant holds after every view of a run that starts from the empty history with
  strictly increasing clock readings.
\<close>

theorem recordView_invariant_step:
  "length (recordView now d h) \<le> MAX_HISTORY
   \<and> (one_entry_per_id h \<longrightarrow> one_entry_per_id (recordView now d h))
   \<and> (strictly_recent_first h \<and> later_than_all now h
        \<longrightarrow> strictly_recent_first (recordView now d h))
   \<and> one_entry_per_id (recordViews vs [])
   \<and> length (recordViews vs []) \<le> MAX_HISTORY
   \<and> (sorted_wrt (<) (map fst vs) \<longrightarrow> history_invariant (recordViews vs []))"
proof -
  have "history_invariant (recordViews vs [])" if "sorted_wrt (<) (map fst vs)"
    using recordViews_invariant [of "[]" vs] that
    by (simp add: history_invariant_def one_entry_per_id_def later_than_all_def)
  moreover have "one_entry_per_id (recordViews vs [])"
    by (rule recordViews_one_entry_per_id) (simp add: one_entry_per_id_def)
  moreover have "length (recordViews vs []) \<le> MAX_HISTORY"
    using length_recordViews [of "[]" vs] by (simp add: MAX_HISTORY_def)
  ultimately show ?thesis
    by (simp add: length_recordView MAX_HISTORY_def one_entry_per_id_recordView
        strictly_recent_first_recordView)
qed

text \<open>The theorem at a two-entry history and at the 51 example views.\<close>

theorem recordView_invariant_step_witness:
  "one_entry_per_id example_history
   \<and> strictly_recent_first example_history
   \<and> later_than_all 1700000000100 example_history
   \<and> one_entry_per_id (recordView 1700000000100
         \<lparr>idMeal = ''52703'', strMeal = ''Dish'', strMealThumb = ''thumb''\<rparr> example_history)
   \<and> strictly_recent_first (recordView 1700000000100
         \<lparr>idMeal = ''52703'', strMeal = ''Dish'', strMealThumb = ''thumb''\<rparr> example_history)
   \<and> sorted_wrt (<) (map fst example_views)
   \<and> history_invariant (recordViews example_views [])"
proof -
  have a: "one_entry_per_id example_history"
    by (simp add: one_entry_per_id_def example_history_def)
  have b: "strictly_recent_first example_history"
    by (simp add: example_history_def)
  have c: "later_than_all 1700000000100 example_history"
    by (simp add: later_than_all_def example_history_def)
  have s: "sorted_wrt (<) (map fst example_views)"
    by code_simp
  show ?thesis
    using recordView_invariant_step [of 1700000000100
        "\<lparr>idMeal = ''52703'', strMeal = ''Dish'', strMealThumb = ''thumb''\<rparr>"
        example_history example_views] a b c s
    by blast
qed

text \<open>
  Claim C9 as stated fails: \<^verbatim>\<open>Date.now()\<close> is wall-clock time, and with a clock that
  is set back between two views (2000, then 1000), or that reads the same millisecond
  twice, the history written is not strictly ordered by \<^verbatim>\<open>viewedAt\<close>.
\<close>

theorem history_timestamp_order_counterexample:
  "\<not> history_invariant
        (recordViews
          [(2000, \<lparr>idMeal = ''52772'', strMeal = ''Teriyaki'', strMealThumb = ''a''\<rparr>),
           (1000, \<lparr>idMeal = ''52771'', strMeal = ''Arrabiata'', strMealThumb = ''b''\<rparr>)] [])
   \<and> \<not> strictly_recent_first
        (recordView 1000 \<lparr>idMeal = ''52771'', strMeal = ''Arrabiata'', strMealThumb = ''b''\<rparr>
          (recordView 1000 \<lparr>idMeal = ''52772'', strMeal = ''Teriyaki'', strMealThumb = ''a''\<rparr> []))"
  by (simp add: history_invariant_def recordView_def newEntry_def MAX_HISTORY_def)

text \<open>
  Claim C10. The list written is the new entry followed by the first 49 of the prior
  entries with another identifier: what stands behind the new entry is a prefix of the
  prior list without the entries of the viewed identifier, hence a subsequence of the
  prior list (same records, same relative order), and it is all of them when fewer than
  50 are left after the removal.
\<close>

theorem recordView_frame:
  "recordView now d h
     = newEntry now d # take (MAX_HISTORY - 1) (filter (\<lambda>e. idMeal e \<noteq> idMeal d) h)
   \<and> prefix (tl (recordView now d h)) (filter (\<lambda>e. idMeal e \<noteq> idMeal d) h)
   \<and> subseq (tl (recordView now d h)) h
   \<and> (length (filter (\<lambda>e. idMeal e \<noteq> idMeal d) h) < MAX_HISTORY
        \<longrightarrow> tl (recordView now d h) = filter (\<lambda>e. idMeal e \<noteq> idMeal d) h)"
proof -
  let ?others = "filter (\<lambda>e. idMeal e \<noteq> idMeal d) h"
  have "prefix (take 49 ?others) ?others"
    by (rule take_is_prefix)
  moreover from this have "subseq (take 49 ?others) h"
    by (meson prefix_imp_subseq subseq_filter_left subseq_order.order_trans)
  ultimately show ?thesis
    by (simp add: recordView_Cons MAX_HISTORY_def)
qed

text \<open>The theorem at a history of two entries, one of them of the dish viewed.\<close>

theorem recordView_frame_witness:
  "length (filter (\<lambda>e. idMeal e \<noteq> ''52703'') example_history) < MAX_HISTORY
   \<and> tl (recordView 1700000000100
         \<lparr>idMeal = ''52703'', strMeal = ''Dish'', strMealThumb = ''thumb''\<rparr> example_history)
       = [\<lparr>idMeal = ''60001'', strMeal = ''Soup'', strMealThumb = ''thumb'', viewedAt = 1500000000000\<rparr>]"
proof -
  have f: "filter (\<lambda>e. idMeal e \<noteq> ''52703'') example_history
      = [\<lparr>idMeal = ''60001'', strMeal = ''Soup'', strMealThumb = ''thumb'', viewedAt = 1500000000000\<rparr>]"
    by (simp add: example_history_def)
  show ?thesis
    using recordView_frame [of 1700000000100
        "\<lparr>idMeal = ''52703'', strMeal = ''Dish'', strMealThumb = ''thumb''\<rparr>" example_history]
    by (simp add: f MAX_HISTORY_def)
qed

section \<open>Properties of the slot extraction\<close>


text \<open>One pass of the loop body appends what the slot contributes.\<close>

lemma loop_body_slot:
  "(case map_option trim (strIngredient d i) of
      None \<Rightarrow> list
    | Some n \<Rightarrow> if n \<noteq> [] then list @ [(n, map_option trim (strMeasure d i))] else list)
   = list @ (case slot d i of None \<Rightarrow> [] | Some x \<Rightarrow> [x])"
  by (cases "strIngredient d i") (simp_all add: slot_def)

text \<open>The loop from slot \<open>i\<close> on appends the contributions of slots \<open>i\<close> to 20, in order.\<close>

lemma extract_loop_map_filter:
  "i \<le> 21 \<Longrightarrow> extract_loop d i list = list @ List.map_filter (slot d) [i..<21]"
proof (induction d i list rule: extract_loop.induct)
  case (1 d i list)
  show ?case
  proof (cases "i \<le> 20")
    case True
    then have upt: "[i..<21] = i # [Suc i..<21]"
      by (simp add: upt_conv_Cons)
    have "extract_loop d i list
        = extract_loop d (Suc i) (list @ (case slot d i of None \<Rightarrow> [] | Some x \<Rightarrow> [x]))"
      using True by (subst extract_loop.simps) (simp only: Let_def loop_body_slot if_True)
    also have "\<dots> = (list @ (case slot d i of None \<Rightarrow> [] | Some x \<Rightarrow> [x]))
        @ List.map_filter (slot d) [Suc i..<21]"
      using "1.IH" [OF True refl refl] True by (simp only: Let_def loop_body_slot)
    also have "\<dots> = list @ List.map_filter (slot d) [i..<21]"
      by (cases "slot d i") (simp_all add: upt List.map_filter_simps)
    finally show ?thesis .
  next
    case False
    with "1.prems" have "i = 21" by simp
    then show ?thesis
      by (subst extract_loop.simps) (simp add: List.map_filter_simps)
  qed
qed

lemma filter_slots_1_5_20: "filter (\<lambda>i. i \<in> {1, 5, 20}) [1..<21] = [1, 5, 20 :: nat]"
  by code_simp

text \<open>
  Claim C4. The extracted list is the sequence of the contributions of slots 1 to 20 in
  ascending order, a slot contributing nothing when its name is missing or trims to the
  empty string and its trimmed name and measure otherwise: nothing is reordered, and
  equal names are all kept. So there are at most 20 entries, and a dish whose only
  named slots are 1, 5 and 20 yields exactly those three, in that order.
\<close>

theorem extractIngredients_slot_order:
  "extractIngredients d = List.map_filter (slot d) [1..<21]
   \<and> length (extractIngredients d) \<le> 20
   \<and> ((\<forall>i \<in> {1..20}. (slot d i = None) = (i \<notin> {1, 5, 20}))
        \<longrightarrow> map Some (extractIngredients d) = [slot d 1, slot d 5, slot d 20])"
proof -
  have eq: "extractIngredients d = List.map_filter (slot d) [1..<21]"
    by (simp add: extractIngredients_def extract_loop_map_filter)
  have len: "length (extractIngredients d) \<le> 20"
  proof -
    have "length (filter (\<lambda>i. slot d i \<noteq> None) [1..<21]) \<le> length [1..<21::nat]"
      by (rule length_filter_le)
    then show ?thesis
      by (simp add: eq List.map_filter_def)
  qed
  have "map Some (extractIngredients d) = [slot d 1, slot d 5, slot d 20]"
    if h: "\<forall>i \<in> {1..20}. (slot d i = None) = (i \<notin> {1, 5, 20})"
  proof -
    have "filter (\<lambda>i. slot d i \<noteq> None) [1..<21] = filter (\<lambda>i. i \<in> {1, 5, 20}) [1..<21]"
      using h by (intro filter_cong) auto
    then have "extractIngredients d = map (the \<circ> slot d) [1, 5, 20]"
      by (simp only: eq List.map_filter_def filter_slots_1_5_20)
    moreover have "slot d 1 \<noteq> None" "slot d 5 \<noteq> None" "slot d 20 \<noteq> None"
      using h by auto
    ultimately show ?thesis by auto
  qed
  with eq len show ?thesis by blast
qed



text \<open>
  The theorem at the example dish: slots 5 and 20 carry the same name and both are kept,
  the blank slot 2 and the property beyond slot 20 are not.
\<close>

theorem extractIngredients_slot_order_witness:
  "list_all (\<lambda>i. (slot example_dish i = None) = (i \<notin> {1, 5, 20})) [1..<21]
   \<and> extractIngredients example_dish
       = [(''soy sauce'', Some ''3/4 cup''), (''salt'', Some ''1 tsp''), (''salt'', None)]"
proof -
  have l: "list_all (\<lambda>i. (slot example_dish i = None) = (i \<notin> {1, 5, 20})) [1..<21]"
    by code_simp
  moreover have "{1..20} = set [1..<21]"
    by auto
  ultimately have h: "\<forall>i \<in> {1..20}. (slot example_dish i = None) = (i \<notin> {1, 5, 20})"
    by (simp only: list_all_iff)
  have "map Some (extractIngredients example_dish)
      = [slot example_dish 1, slot example_dish 5, slot example_dish 20]"
    using extractIngredients_slot_order [of example_dish] h by blast
  also have "\<dots> = map Some [(''soy sauce'', Some ''3/4 cup''), (''salt'', Some ''1 tsp''), (''salt'', None)]"
    by code_simp
  finally have "extractIngredients example_dish
      = [(''soy sauce'', Some ''3/4 cup''), (''salt'', Some ''1 tsp''), (''salt'', None)]"
    by (simp only: inj_map_eq_map [OF inj_Some])
  with l show ?thesis by simp
qed

text \<open>The extraction, evaluated at the example dish.\<close>

lemma extractIngredients_example:
  "extractIngredients example_dish
     = [(''soy sauce'', Some ''3/4 cup''), (''salt'', Some ''1 tsp''), (''salt'', None)]"
proof -
  have "extractIngredients example_dish = List.map_filter (slot example_dish) [1..<21]"
    by (simp add: extractIngredients_def extract_loop_map_filter)
  also have "\<dots> = [(''soy sauce'', Some ''3/4 cup''), (''salt'', Some ''1 tsp''), (''salt'', None)]"
    by code_simp
  finally show ?thesis .
qed


section \<open>Properties of the enrichment\<close>


text \<open>The \<^verbatim>\<open>catch\<close> turns every throw into a value, so no task rejects.\<close>

lemma enrich_task_Inr: "enrich_task env k p = Inr (settled_value env k p)"
  by (simp add: enrich_task_def settled_value_def split: sum.splits)

lemma Promise_all_Inr: "Promise_all (map Inr vs) = Inr vs"
  by (induction vs) simp_all

text \<open>Hence \<^verbatim>\<open>Promise.all\<close> fulfils, with the settled values in task order.\<close>

lemma enrich_Inr:
  "enrich env list = Inr (map (\<lambda>(k, p). settled_value env k p) (enumerate 0 list))"
proof -
  have "map (\<lambda>(k, p). enrich_task env k p) (enumerate 0 list)
      = map Inr (map (\<lambda>(k, p). settled_value env k p) (enumerate 0 list))"
    by (simp add: enrich_task_Inr split_def)
  then show ?thesis
    by (simp only: enrich_def Promise_all_Inr)
qed

lemma settled_value_fields:
  "name (settled_value env k p) = fst p" "measure (settled_value env k p) = snd p"
  by (simp_all add: settled_value_def try_block_def degraded_def split: sum.splits)

lemma settled_value_failed:
  "isl (getNutritionByIngredient env k (fst p)) \<or> isl (getAllergenFlags env k (fst p)) \<Longrightarrow>
   settled_value env k p = degraded (fst p) (snd p)"
  by (auto simp: settled_value_def try_block_def split: sum.splits)

lemma settled_value_fetched:
  "getNutritionByIngredient env k (fst p) = Inr nut \<Longrightarrow> getAllergenFlags env k (fst p) = Inr aler \<Longrightarrow>
   settled_value env k p = \<lparr>name = fst p, measure = snd p, nutrition = nut, allergens = aler\<rparr>"
  by (simp add: settled_value_def try_block_def)

text \<open>
  Claim C2. For every list of extracted pairs and all collaborators (every pattern of
  failing calls), the enrichment fulfils with one entry per pair, in the order of the
  pairs, each with the name and measure of its pair. An entry whose nutrition call or
  allergen call fails has the all-zero nutrition record and no allergens; an entry whose
  calls both return carries the two fetched values. No error leaves the enrichment, and
  the effect on a remote dish stores the list and clears \<^verbatim>\<open>loadingNutrition\<close>.
\<close>

theorem enrich_total_coverage:
  "\<exists>enriched.
     enrich env list = Inr enriched
     \<and> map name enriched = map fst list
     \<and> map measure enriched = map snd list
     \<and> (\<forall>k < length list.
          (isl (getNutritionByIngredient env k (fst (list ! k)))
             \<or> isl (getAllergenFlags env k (fst (list ! k)))
           \<longrightarrow> nutrition (enriched ! k) = zero_nutrition \<and> allergens (enriched ! k) = [])
          \<and> (\<forall>nut aler.
               getNutritionByIngredient env k (fst (list ! k)) = Inr nut
               \<and> getAllergenFlags env k (fst (list ! k)) = Inr aler
               \<longrightarrow> nutrition (enriched ! k) = nut \<and> allergens (enriched ! k) = aler))
     \<and> (dish w = Some d \<and> localMeal w = None \<and> list = extractIngredients d
          \<longrightarrow> enrichment_effect env w
                = Inr (w\<lparr>ingredients := enriched, loadingNutrition := False\<rparr>))"
proof -
  let ?enriched = "map (\<lambda>(k, p). settled_value env k p) (enumerate 0 list)"
  have nth: "?enriched ! k = settled_value env k (list ! k)" if "k < length list" for k
    using that by (simp add: nth_enumerate_eq)
  have names: "map name ?enriched = map fst list"
    by (rule nth_equalityI) (simp_all add: nth_enumerate_eq settled_value_fields)
  have measures: "map measure ?enriched = map snd list"
    by (rule nth_equalityI) (simp_all add: nth_enumerate_eq settled_value_fields)
  have failed: "nutrition (?enriched ! k) = zero_nutrition \<and> allergens (?enriched ! k) = []"
    if "k < length list"
      and "isl (getNutritionByIngredient env k (fst (list ! k)))
           \<or> isl (getAllergenFlags env k (fst (list ! k)))" for k
    using that(2) by (simp only: nth [OF that(1)]) (simp add: settled_value_failed degraded_def)
  have fetched: "nutrition (?enriched ! k) = nut \<and> allergens (?enriched ! k) = aler"
    if "k < length list"
      and "getNutritionByIngredient env k (fst (list ! k)) = Inr nut
           \<and> getAllergenFlags env k (fst (list ! k)) = Inr aler" for k nut aler
    using that(2) by (simp only: nth [OF that(1)]) (simp add: settled_value_fetched)
  have effect: "enrichment_effect env w
      = Inr (w\<lparr>ingredients := ?enriched, loadingNutrition := False\<rparr>)"
    if "dish w = Some d \<and> localMeal w = None \<and> list = extractIngredients d"
    using that by (simp add: enrichment_effect_def enrich_Inr)
  have each: "\<forall>k < length list.
          (isl (getNutritionByIngredient env k (fst (list ! k)))
             \<or> isl (getAllergenFlags env k (fst (list ! k)))
           \<longrightarrow> nutrition (?enriched ! k) = zero_nutrition \<and> allergens (?enriched ! k) = [])
          \<and> (\<forall>nut aler.
               getNutritionByIngredient env k (fst (list ! k)) = Inr nut
               \<and> getAllergenFlags env k (fst (list ! k)) = Inr aler
               \<longrightarrow> nutrition (?enriched ! k) = nut \<and> allergens (?enriched ! k) = aler)"
  proof (intro allI impI)
    fix k assume k: "k < length list"
    show "(isl (getNutritionByIngredient env k (fst (list ! k)))
             \<or> isl (getAllergenFlags env k (fst (list ! k)))
           \<longrightarrow> nutrition (?enriched ! k) = zero_nutrition \<and> allergens (?enriched ! k) = [])
          \<and> (\<forall>nut aler.
               getNutritionByIngredient env k (fst (list ! k)) = Inr nut
               \<and> getAllergenFlags env k (fst (list ! k)) = Inr aler
               \<longrightarrow> nutrition (?enriched ! k) = nut \<and> allergens (?enriched ! k) = aler)"
      using failed [OF k] fetched [OF k] by blast
  qed
  have eff: "dish w = Some d \<and> localMeal w = None \<and> list = extractIngredients d
      \<longrightarrow> enrichment_effect env w = Inr (w\<lparr>ingredients := ?enriched, loadingNutrition := False\<rparr>)"
    using effect by (rule impI)
  from enrich_Inr [of env list] names measures each eff show ?thesis
    by (intro exI [of _ ?enriched] conjI)
qed

text \<open>
  The theorem at the example dish, where the nutrition call of the second of three tasks
  fails: three entries in slot order, the second degraded, the two others fetched.
\<close>

theorem enrich_total_coverage_witness:
  "enrich example_env (extractIngredients example_dish)
     = Inr [\<lparr>name = ''soy sauce'', measure = Some ''3/4 cup'', nutrition = example_nutrition,
              allergens = [''soy'', ''wheat'']\<rparr>,
            \<lparr>name = ''salt'', measure = Some ''1 tsp'', nutrition = zero_nutrition, allergens = []\<rparr>,
            \<lparr>name = ''salt'', measure = None, nutrition = example_nutrition, allergens = []\<rparr>]
   \<and> isl (getNutritionByIngredient example_env 1 ''salt'')
   \<and> getNutritionByIngredient example_env 2 ''salt'' = Inr example_nutrition
   \<and> getAllergenFlags example_env 2 ''salt'' = Inr []"
proof -
  note list = extractIngredients_example
  let ?list = "[(''soy sauce'', Some ''3/4 cup''), (''salt'', Some ''1 tsp''), (''salt'', None)]"
  have fail: "isl (getNutritionByIngredient example_env 1 ''salt'')"
    by (simp add: example_env_def)
  have nut0: "getNutritionByIngredient example_env 0 ''soy sauce'' = Inr example_nutrition"
    and al0: "getAllergenFlags example_env 0 ''soy sauce'' = Inr [''soy'', ''wheat'']"
    and nut2: "getNutritionByIngredient example_env 2 ''salt'' = Inr example_nutrition"
    and al2: "getAllergenFlags example_env 2 ''salt'' = Inr []"
    by (simp_all add: example_env_def)
  obtain enriched where e: "enrich example_env ?list = Inr enriched"
    and names: "map name enriched = map fst ?list"
    and measures: "map measure enriched = map snd ?list"
    and each: "\<forall>k < length ?list.
          (isl (getNutritionByIngredient example_env k (fst (?list ! k)))
             \<or> isl (getAllergenFlags example_env k (fst (?list ! k)))
           \<longrightarrow> nutrition (enriched ! k) = zero_nutrition \<and> allergens (enriched ! k) = [])
          \<and> (\<forall>nut aler.
               getNutritionByIngredient example_env k (fst (?list ! k)) = Inr nut
               \<and> getAllergenFlags example_env k (fst (?list ! k)) = Inr aler
               \<longrightarrow> nutrition (enriched ! k) = nut \<and> allergens (enriched ! k) = aler)"
    using enrich_total_coverage [of example_env ?list] by blast
  from names obtain a b c where abc: "enriched = [a, b, c]"
    by (auto simp: map_eq_Cons_conv)
  have "nutrition a = example_nutrition \<and> allergens a = [''soy'', ''wheat'']"
    using each [rule_format, of 0] nut0 al0 by (simp add: abc)
  moreover have "nutrition b = zero_nutrition \<and> allergens b = []"
    using each [rule_format, of 1] fail by (simp add: abc)
  moreover have "nutrition c = example_nutrition \<and> allergens c = []"
    using each [rule_format, of 2] nut2 al2 by (simp add: abc)
  ultimately have "enriched =
     [\<lparr>name = ''soy sauce'', measure = Some ''3/4 cup'', nutrition = example_nutrition,
              allergens = [''soy'', ''wheat'']\<rparr>,
            \<lparr>name = ''salt'', measure = Some ''1 tsp'', nutrition = zero_nutrition, allergens = []\<rparr>,
            \<lparr>name = ''salt'', measure = None, nutrition = example_nutrition, allergens = []\<rparr>]"
    using names measures by (simp add: abc)
  then show ?thesis
    using e fail nut2 al2 by (simp add: list)
qed

section \<open>Properties of the resolution effect\<close>


text \<open>The local branch, written as one update of the state.\<close>

lemma resolution_effect_local:
  assumes "getMealById env ident = Some m"
  shows "resolution_effect env ident w
    = w\<lparr>localMeal := Some m, dish := Some (local_dish m),
         isFavorite := isFavoriteId (meal_id m) (parse_or_empty (FAVORITES (storage w))),
         storage := (storage w)\<lparr>HISTORY :=
           Some (recordView (Date_now env) (local_dish m) (parse_or_empty (HISTORY (storage w))))\<rparr>,
         calls := calls w @ [GetItem FAVORITES_KEY, GetItem HISTORY_KEY, SetItem HISTORY_KEY],
         loadingLocal := False\<rparr>"
  using assms
  by (simp add: resolution_effect_def favorite_check_def history_record_def Let_def local_dish_def)

text \<open>
  Claim C1. When the local dataset has a meal under the identifier, the run ends with the
  dish built from that meal and the meal itself in the state, whatever the remote
  catalogue would answer for the identifier (the collaborators are arbitrary): the only
  outside calls are the favourites read and the history read and write, so
  \<^verbatim>\<open>getMealDetails\<close> is not called, and the enrichment effect leaves the ingredient
  list as it was.
\<close>

theorem local_precedence:
  "getMealById env ident = Some m \<Longrightarrow>
   \<exists>w'. pipeline env ident w = Inr w'
     \<and> dish w' = Some (local_dish m)
     \<and> localMeal w' = Some m
     \<and> loadingLocal w' = False
     \<and> calls w' = calls w @ [GetItem FAVORITES_KEY, GetItem HISTORY_KEY, SetItem HISTORY_KEY]
     \<and> GetMealDetails ident \<notin> set (drop (length (calls w)) (calls w'))
     \<and> ingredients w' = ingredients w
     \<and> loadingNutrition w' = loadingNutrition w"
  by (simp add: pipeline_def enrichment_effect_def resolution_effect_local)

text \<open>
  The theorem at a local identifier under which the remote catalogue has a record too.
\<close>

theorem local_precedence_witness:
  "getMealById example_env ''L1'' = Some example_meal
   \<and> getMealDetails example_env ''L1'' = Inr example_dish
   \<and> map_sum id dish (pipeline example_env ''L1'' (initial_world example_storage))
       = Inr (Some (local_dish example_meal))
   \<and> map_sum id calls (pipeline example_env ''L1'' (initial_world example_storage))
       = Inr [GetItem FAVORITES_KEY, GetItem HISTORY_KEY, SetItem HISTORY_KEY]
   \<and> map_sum id ingredients (pipeline example_env ''L1'' (initial_world example_storage))
       = Inr []"
proof -
  have m: "getMealById example_env ''L1'' = Some example_meal"
    and r: "getMealDetails example_env ''L1'' = Inr example_dish"
    by (simp_all add: example_env_def)
  obtain w' where "pipeline example_env ''L1'' (initial_world example_storage) = Inr w'"
    and "dish w' = Some (local_dish example_meal)"
    and "calls w' = calls (initial_world example_storage)
           @ [GetItem FAVORITES_KEY, GetItem HISTORY_KEY, SetItem HISTORY_KEY]"
    and "ingredients w' = ingredients (initial_world example_storage)"
    using local_precedence [OF m, of "initial_world example_storage"] by auto
  then show ?thesis
    using m r by (simp add: initial_world_def)
qed

text \<open>The enrichment effect never rejects, so neither does a run of the screen.\<close>

lemma enrichment_effect_fulfils: "\<not> isl (enrichment_effect env w)"
  by (simp add: enrichment_effect_def enrich_Inr split: option.splits)

text \<open>
  Claim C5, as the code has it. When the identifier is not local and
  \<^verbatim>\<open>getMealDetails\<close> throws, the \<^verbatim>\<open>catch\<close> of lines 124-126 logs the error with
  \<^verbatim>\<open>console.error\<close> and swallows it: nothing is rethrown and no state cell holds an
  error, so the run completes normally. The resolution effect changes nothing but the
  call log and \<^verbatim>\<open>loadingDish\<close>, which it clears: the stored favourites and history
  are the ones found, no storage call is made (no favourite check, no history write),
  and the dish is left as it was, which is none for a run from the state at mount.
\<close>

theorem remote_failure_no_side_effects:
  "getMealById env ident = None \<Longrightarrow> getMealDetails env ident = Inl e \<Longrightarrow>
   resolution_effect env ident w
     = w\<lparr>calls := calls w @ [GetMealDetails ident, ConsoleError e], loadingDish := False\<rparr>
   \<and> \<not> isl (pipeline env ident w)
   \<and> loadingDish (resolution_effect env ident w) = False
   \<and> storage (resolution_effect env ident w) = storage w
   \<and> dish (resolution_effect env ident w) = dish w
   \<and> isFavorite (resolution_effect env ident w) = isFavorite w
   \<and> GetItem FAVORITES_KEY \<notin> set (drop (length (calls w)) (calls (resolution_effect env ident w)))
   \<and> SetItem HISTORY_KEY \<notin> set (drop (length (calls w)) (calls (resolution_effect env ident w)))
   \<and> pipeline env ident (initial_world st)
       = Inr ((initial_world st)\<lparr>calls := [GetMealDetails ident, ConsoleError e],
                                  loadingDish := False\<rparr>)
   \<and> dish (initial_world st) = None"
proof -
  assume m: "getMealById env ident = None" and r: "getMealDetails env ident = Inl e"
  have "\<not> isl (pipeline env ident w)"
    by (simp only: pipeline_def enrichment_effect_fulfils) simp
  then show ?thesis
    using m r
    by (simp add: resolution_effect_def pipeline_def enrichment_effect_def initial_world_def)
qed

text \<open>The amended claim at an identifier that neither source knows.\<close>

theorem remote_failure_no_side_effects_witness:
  "getMealById example_env ''99999'' = None
   \<and> getMealDetails example_env ''99999'' = Inl NotFoundError
   \<and> \<not> isl (pipeline example_env ''99999'' (initial_world example_storage))
   \<and> map_sum id storage (pipeline example_env ''99999'' (initial_world example_storage))
       = Inr example_storage
   \<and> map_sum id dish (pipeline example_env ''99999'' (initial_world example_storage)) = Inr None
   \<and> map_sum id calls (pipeline example_env ''99999'' (initial_world example_storage))
       = Inr [GetMealDetails ''99999'', ConsoleError NotFoundError]"
proof -
  have m: "getMealById example_env ''99999'' = None"
    and r: "getMealDetails example_env ''99999'' = Inl NotFoundError"
    by (simp_all add: example_env_def)
  show ?thesis
    using remote_failure_no_side_effects [OF m r, of "initial_world example_storage" example_storage] m r
    by (simp add: initial_world_def)
qed

text \<open>
  Claim C5 as stated fails. The error is not surfaced: for an identifier that neither
  source knows the fetch throws, and the run still completes normally, the error gone
  to the console only. And the dish is not always unavailable: when the effect runs
  again on a screen that shows dish 52772, the failed fetch leaves that dish in place.
\<close>

theorem remote_failure_swallowed_counterexample:
  "getMealById example_env ''99999'' = None
   \<and> getMealDetails example_env ''99999'' = Inl NotFoundError
   \<and> \<not> isl (pipeline example_env ''99999'' (initial_world example_storage))
   \<and> map_option idMeal (dish (resolution_effect example_env ''99999'' example_world))
       = Some ''52772''
   \<and> map_option idMeal (dish (projr (pipeline example_env ''99999'' example_world)))
       = Some ''52772''"
proof -
  have m: "getMealById example_env ''99999'' = None"
    and r: "getMealDetails example_env ''99999'' = Inl NotFoundError"
    by (simp_all add: example_env_def)
  have res: "resolution_effect example_env ''99999'' example_world
      = example_world\<lparr>calls := calls example_world
            @ [GetMealDetails ''99999'', ConsoleError NotFoundError],
          loadingDish := False\<rparr>"
    using m r by (simp add: resolution_effect_def)
  have d: "dish example_world = Some example_dish" and l: "localMeal example_world = None"
    by (simp_all add: example_world_def initial_world_def)
  have i: "idMeal example_dish = ''52772''"
    by (simp add: example_dish_def)
  have "\<not> isl (pipeline example_env ''99999'' (initial_world example_storage))"
    by (simp only: pipeline_def enrichment_effect_fulfils) simp
  moreover have "map_option idMeal (dish (resolution_effect example_env ''99999'' example_world))
       = Some ''52772''"
    by (simp add: res d i)
  moreover have "map_option idMeal (dish (projr (pipeline example_env ''99999'' example_world)))
       = Some ''52772''"
    by (simp add: pipeline_def res enrichment_effect_def d l i enrich_Inr)
  ultimately show ?thesis
    using m r by simp
qed

section \<open>Properties of the favourite toggle\<close>

text \<open>With a dish on the screen the toggle does not throw.\<close>

lemma toggleFavorite_Some:
  assumes "dish w = Some d"
  shows "toggleFavorite w
    = Inr (Undefined,
        w\<lparr>calls := calls w @ [GetItem FAVORITES_KEY, SetItem FAVORITES_KEY],
          storage := (storage w)\<lparr>FAVORITES := Some
            (if isFavorite w then filter (\<lambda>f. idMeal f \<noteq> idMeal d) (persisted_favorites w)
             else persisted_favorites w
               @ [\<lparr>idMeal = idMeal d, strMeal = strMeal d, strMealThumb = strMealThumb d\<rparr>])\<rparr>,
          isFavorite := \<not> isFavorite w\<rparr>)"
  using assms by (simp add: toggleFavorite_def persisted_favorites_def Let_def)

lemma isFavoriteId_filter:
  "isFavoriteId i (filter (\<lambda>f. idMeal f \<noteq> j) favList) = (i \<noteq> j \<and> isFavoriteId i favList)"
  by (auto simp: isFavoriteId_def list_ex_iff)

lemma isFavoriteId_append:
  "isFavoriteId i (favList @ [f]) = (isFavoriteId i favList \<or> idMeal f = i)"
  by (auto simp: isFavoriteId_def list_ex_iff)

text \<open>The list written, the new flag, and what the promise resolves to.\<close>

lemma toggleFavorite_result:
  assumes "dish w = Some d" and "toggleFavorite w = Inr (v, w')"
  shows "persisted_favorites w'
     = (if isFavorite w then filter (\<lambda>f. idMeal f \<noteq> idMeal d) (persisted_favorites w)
        else persisted_favorites w
          @ [\<lparr>idMeal = idMeal d, strMeal = strMeal d, strMealThumb = strMealThumb d\<rparr>])"
    and "isFavorite w' = (\<not> isFavorite w)" and "dish w' = Some d" and "v = Undefined"
proof -
  from assms(2) have v: "v = Undefined" and w': "w' = w\<lparr>calls := calls w @ [GetItem FAVORITES_KEY, SetItem FAVORITES_KEY],
          storage := (storage w)\<lparr>FAVORITES := Some
            (if isFavorite w then filter (\<lambda>f. idMeal f \<noteq> idMeal d) (persisted_favorites w)
             else persisted_favorites w
               @ [\<lparr>idMeal = idMeal d, strMeal = strMeal d, strMealThumb = strMealThumb d\<rparr>])\<rparr>,
          isFavorite := \<not> isFavorite w\<rparr>"
    unfolding toggleFavorite_Some [OF assms(1)] by simp_all
  show "v = Undefined" by (rule v)
  show "isFavorite w' = (\<not> isFavorite w)" by (simp add: w')
  show "dish w' = Some d" by (simp add: w' assms(1))
  have "persisted_favorites w' = parse_or_empty (FAVORITES (storage w'))"
    by (simp only: persisted_favorites_def)
  also have "\<dots> = (if isFavorite w then filter (\<lambda>f. idMeal f \<noteq> idMeal d) (persisted_favorites w)
        else persisted_favorites w
          @ [\<lparr>idMeal = idMeal d, strMeal = strMeal d, strMealThumb = strMealThumb d\<rparr>])"
    by (simp add: w' parse_or_empty_def)
  finally show "persisted_favorites w'
     = (if isFavorite w then filter (\<lambda>f. idMeal f \<noteq> idMeal d) (persisted_favorites w)
        else persisted_favorites w
          @ [\<lparr>idMeal = idMeal d, strMeal = strMeal d, strMealThumb = strMealThumb d\<rparr>])" .
qed

lemma toggleFavorite_membership:
  assumes "dish w = Some d" and "toggleFavorite w = Inr (v, w')"
  shows "isFavoriteId i (persisted_favorites w')
     = (if i = idMeal d then \<not> isFavorite w else isFavoriteId i (persisted_favorites w))"
  by (cases "isFavorite w")
    (auto simp: toggleFavorite_result(1) [OF assms] isFavoriteId_filter isFavoriteId_append)

lemma toggleFavorite_flag:
  assumes "dish w = Some d" and "toggleFavorite w = Inr (v, w')"
  shows "isFavorite w' = isFavoriteId (idMeal d) (persisted_favorites w')"
  by (simp add: toggleFavorite_membership [OF assms] toggleFavorite_result(2) [OF assms])

text \<open>
  Claim C6. With a dish on the screen and the flag agreeing with the stored list, two
  toggles in a row both succeed, and afterwards every identifier is a favourite exactly
  when it was one before; after the first toggle the membership of the dish is flipped;
  after each toggle the flag agrees with the list just written.
\<close>

theorem toggleFavorite_twice:
  "dish w = Some d \<Longrightarrow> isFavorite w = isFavoriteId (idMeal d) (persisted_favorites w) \<Longrightarrow>
   \<exists>w1 w2. toggleFavorite w = Inr (Undefined, w1)
     \<and> toggleFavorite w1 = Inr (Undefined, w2)
     \<and> (\<forall>i. isFavoriteId i (persisted_favorites w2) = isFavoriteId i (persisted_favorites w))
     \<and> isFavoriteId (idMeal d) (persisted_favorites w1)
         = (\<not> isFavoriteId (idMeal d) (persisted_favorites w))
     \<and> isFavorite w1 = isFavoriteId (idMeal d) (persisted_favorites w1)
     \<and> isFavorite w2 = isFavoriteId (idMeal d) (persisted_favorites w2)
     \<and> isFavorite w2 = isFavorite w"
proof -
  assume d: "dish w = Some d"
    and c: "isFavorite w = isFavoriteId (idMeal d) (persisted_favorites w)"
  obtain w1 where t1: "toggleFavorite w = Inr (Undefined, w1)"
    using toggleFavorite_Some [OF d] by simp
  note f1 = toggleFavorite_flag [OF d t1] and r1 = toggleFavorite_result [OF d t1]
    and m1 = toggleFavorite_membership [OF d t1]
  obtain w2 where t2: "toggleFavorite w1 = Inr (Undefined, w2)"
    using toggleFavorite_Some [OF r1(3)] by simp
  note f2 = toggleFavorite_flag [OF r1(3) t2] and r2 = toggleFavorite_result [OF r1(3) t2]
    and m2 = toggleFavorite_membership [OF r1(3) t2]
  have "\<forall>i. isFavoriteId i (persisted_favorites w2) = isFavoriteId i (persisted_favorites w)"
    using c by (simp add: m1 m2 r1(2))
  moreover have "isFavoriteId (idMeal d) (persisted_favorites w1)
         = (\<not> isFavoriteId (idMeal d) (persisted_favorites w))"
    using c by (simp add: m1)
  moreover have "isFavorite w2 = isFavorite w"
    by (simp add: r1(2) r2(2))
  ultimately show ?thesis
    using t1 t2 f1 f2 by (intro exI [of _ w1] exI [of _ w2] conjI)
qed


lemma example_world_facts:
  "dish example_world = Some example_dish"
  "isFavorite example_world = False"
  "persisted_favorites example_world
     = [\<lparr>idMeal = ''60001'', strMeal = ''Soup'', strMealThumb = ''thumb''\<rparr>]"
  "idMeal example_dish = ''52772''"
  by (simp_all add: example_world_def initial_world_def persisted_favorites_def
      parse_or_empty_def example_storage_def example_dish_def)

text \<open>The theorem at the example screen, whose dish is not a favourite.\<close>

theorem toggleFavorite_twice_witness:
  "dish example_world = Some example_dish
   \<and> isFavorite example_world = isFavoriteId ''52772'' (persisted_favorites example_world)
   \<and> \<not> isl (toggleFavorite example_world)
   \<and> \<not> isl (toggleFavorite (snd (projr (toggleFavorite example_world))))
   \<and> isFavoriteId ''52772'' (persisted_favorites (snd (projr (toggleFavorite example_world))))
   \<and> \<not> isFavoriteId ''52772''
         (persisted_favorites
           (snd (projr (toggleFavorite (snd (projr (toggleFavorite example_world)))))))
   \<and> isFavoriteId ''60001''
         (persisted_favorites
           (snd (projr (toggleFavorite (snd (projr (toggleFavorite example_world)))))))"
proof -
  have c: "isFavorite example_world = isFavoriteId (idMeal example_dish) (persisted_favorites example_world)"
    by (simp add: example_world_facts isFavoriteId_def)
  obtain w1 w2 where t1: "toggleFavorite example_world = Inr (Undefined, w1)"
    and t2: "toggleFavorite w1 = Inr (Undefined, w2)"
    and same: "\<forall>i. isFavoriteId i (persisted_favorites w2)
        = isFavoriteId i (persisted_favorites example_world)"
    and flip: "isFavoriteId (idMeal example_dish) (persisted_favorites w1)
         = (\<not> isFavoriteId (idMeal example_dish) (persisted_favorites example_world))"
    using toggleFavorite_twice [OF example_world_facts(1) c] by blast
  have "isFavoriteId ''52772'' (persisted_favorites w1)"
    using flip by (simp add: example_world_facts isFavoriteId_def)
  moreover have "isFavoriteId ''52772'' (persisted_favorites w2)
      = isFavoriteId ''52772'' (persisted_favorites example_world)"
    and "isFavoriteId ''60001'' (persisted_favorites w2)
      = isFavoriteId ''60001'' (persisted_favorites example_world)"
    using same by blast+
  then have "\<not> isFavoriteId ''52772'' (persisted_favorites w2)"
    and "isFavoriteId ''60001'' (persisted_favorites w2)"
    by (simp_all add: example_world_facts isFavoriteId_def)
  ultimately show ?thesis
    using c by (simp add: t1 t2 example_world_facts)
qed

text \<open>
  Claim C7, as the code has it. \<^verbatim>\<open>toggleFavorite\<close> returns no value: its promise resolves
  to \<^verbatim>\<open>undefined\<close>. The new favourite state is published through
  \<^verbatim>\<open>setIsFavorite\<close>: the flag becomes the negation of the old flag, and that new flag
  is true exactly when the dish is in the favourites list just written.
\<close>

theorem toggleFavorite_new_state:
  "dish w = Some d \<Longrightarrow>
   \<exists>w'. toggleFavorite w = Inr (Undefined, w')
     \<and> isFavorite w' = (\<not> isFavorite w)
     \<and> isFavorite w' = isFavoriteId (idMeal d) (persisted_favorites w')"
proof -
  assume d: "dish w = Some d"
  obtain w' where t: "toggleFavorite w = Inr (Undefined, w')"
    using toggleFavorite_Some [OF d] by simp
  show ?thesis
    using t toggleFavorite_result(2) [OF d t] toggleFavorite_flag [OF d t]
    by (intro exI [of _ w'] conjI)
qed

text \<open>The amended claim at the example screen.\<close>

theorem toggleFavorite_new_state_witness:
  "dish example_world = Some example_dish
   \<and> fst (projr (toggleFavorite example_world)) = Undefined
   \<and> isFavorite (snd (projr (toggleFavorite example_world)))
   \<and> isFavoriteId ''52772'' (persisted_favorites (snd (projr (toggleFavorite example_world))))"
proof -
  obtain w' where t: "toggleFavorite example_world = Inr (Undefined, w')"
    and n: "isFavorite w' = (\<not> isFavorite example_world)"
    and f: "isFavorite w' = isFavoriteId (idMeal example_dish) (persisted_favorites w')"
    using toggleFavorite_new_state [OF example_world_facts(1)] by blast
  from n have "isFavorite w'"
    by (simp add: example_world_facts)
  with f show ?thesis
    by (simp add: t example_world_facts)
qed

text \<open>
  Claim C7 as stated fails: on the example screen the toggle makes the dish a favourite,
  and the value returned is \<^verbatim>\<open>undefined\<close>, not the boolean \<^verbatim>\<open>true\<close>.
\<close>

theorem toggleFavorite_returns_no_boolean_counterexample:
  "\<not> isl (toggleFavorite example_world)
   \<and> isFavoriteId ''52772'' (persisted_favorites (snd (projr (toggleFavorite example_world))))
   \<and> fst (projr (toggleFavorite example_world)) = Undefined
   \<and> fst (projr (toggleFavorite example_world)) \<noteq> Boolean True"
  by (simp add: toggleFavorite_Some [OF example_world_facts(1)] example_world_facts
      persisted_favorites_def parse_or_empty_def isFavoriteId_def)

section \<open>Properties of the task pool\<close>





lemma length_settle [simp]: "length (fst (settle env list k s)) = length (fst s)"
  by (simp add: settle_def split_def Let_def)

lemma length_run [simp]: "length (fst (run env list ks s)) = length (fst s)"
  by (induction ks arbitrary: s) simp_all

























end
